theory Spec2Isabelle
  imports Main
begin

section \<open>The login flow of pkg/login/flow.go\<close>

text \<open>
  The flow talks to five collaborators whose code is outside the file: the resolved
  flags, the login client (catalog fetch, login submission, URL building), the prompt,
  the browser opener and the JWT library with the wall clock. Their answers are the
  fields of the record \<open>env\<close>; an answer that can change from call to call takes the
  events so far as its first argument. Everything the flow does to the outside is
  appended to the \<open>trace\<close> of the flow, in the order of the calls.
\<close>

subsection \<open>Data model\<close>

text \<open>
  A Go \<open>error\<close> value is its message. A run-time panic (an index out of range) is a
  value of its own that every caller passes up unchanged.
\<close>

datatype error = Err string | Panic string

text \<open>
  \<open>Provider.ClientMethod\<close>: the four methods the \<open>switch\<close> of \<open>triggerMethod\<close>
  knows, and any other string the server may send, for which the \<open>switch\<close> has no case.
\<close>

datatype ClientMethod =
    methodCredential
  | methodUserCredential
  | methodServiceCredential
  | methodBrowserToken
  | methodOther string

record ProviderConfig =
  StartFlowURL :: string

record Provider =
  ID :: string
  Type :: string
  ClientMethod :: ClientMethod
  Config :: ProviderConfig

text \<open>\<open>Providers\<close> is a Go map from provider ID to provider.\<close>

type_synonym Providers = "string \<rightharpoonup> Provider"

record Flags =
  providerID :: string
  username :: string
  password :: string
  privateKey :: string

record Credentials =
  UID :: string
  Password :: string
  Token :: string

text \<open>
  What \<open>jwt.NewWithClaims\<close> builds: the name of the signing method and the claims
  map. A claim value is a string or an integer.
\<close>

datatype claim = ClaimString string | ClaimInt int

record jwtToken =
  Method :: string
  Claims :: "string \<rightharpoonup> claim"

datatype event =
    LogInfo string
  | LogError error
  | Errout string
  | Opened string
  | FetchedProviders
  | PromptSelect string "Provider list"
  | PromptInput string
  | PromptPassword string
  | LoginCall string Credentials "string \<times> error option"

record env =
  Resolve :: "Flags \<Rightarrow> error + Flags"
  Supports :: "Flags \<Rightarrow> Provider \<Rightarrow> bool"
  clientProviders :: "event list \<Rightarrow> error + Providers"
  Slice :: "Providers \<Rightarrow> Provider list"
  promptSelect :: "event list \<Rightarrow> string \<Rightarrow> Provider list \<Rightarrow> int \<times> error option"
  promptInput :: "event list \<Rightarrow> string \<Rightarrow> string"
  promptPassword :: "event list \<Rightarrow> string \<Rightarrow> string"
  clientLogin :: "event list \<Rightarrow> string \<Rightarrow> Credentials \<Rightarrow> string \<times> error option"
  httpNewRequest :: "string \<Rightarrow> string \<Rightarrow> error + string"
  openerOpen :: "event list \<Rightarrow> string \<Rightarrow> error option"
  timeNow :: "event list \<Rightarrow> int"
  SignedString :: "jwtToken \<Rightarrow> string \<Rightarrow> error + string"

text \<open>
  The mutable part of the Go \<open>Flow\<close> struct (\<open>flags\<close>, \<open>interactive\<close>) and the
  effects on its collaborators so far.
\<close>

record Flow =
  flags :: Flags
  interactive :: bool
  trace :: "event list"

definition emit :: "event \<Rightarrow> Flow \<Rightarrow> Flow" where
  "emit e f = f\<lparr>trace := trace f @ [e]\<rparr>"

definition isLoginCall :: "event \<Rightarrow> bool" where
  "isLoginCall e = (case e of LoginCall _ _ _ \<Rightarrow> True | _ \<Rightarrow> False)"

definition loginAttempts :: "event list \<Rightarrow> nat" where
  "loginAttempts tr = length (filter isLoginCall tr)"

definition openedURLs :: "event list \<Rightarrow> string list" where
  "openedURLs tr = concat (map (\<lambda>e. case e of Opened u \<Rightarrow> [u] | _ \<Rightarrow> []) tr)"


subsection \<open>Strings and time\<close>

definition HasPrefix :: "string \<Rightarrow> string \<Rightarrow> bool" where
  "HasPrefix s p = (take (length p) s = p)"

definition quoted :: "string \<Rightarrow> string" where
  "quoted s = [CHR 0x27] @ s @ [CHR 0x27]"

text \<open>
  A \<open>time.Time\<close> is the number of nanoseconds since the Unix epoch, a
  \<open>time.Duration\<close> a number of nanoseconds; \<open>Unix\<close> is the number of whole seconds.
\<close>

definition Minute :: int where
  "Minute = 60 * 1000000000"

definition Add :: "int \<Rightarrow> int \<Rightarrow> int" where
  "Add t d = t + d"

definition Unix :: "int \<Rightarrow> int" where
  "Unix t = t div 1000000000"

subsection \<open>uid, password, serviceToken, openBrowser\<close>

definition uid :: "env \<Rightarrow> Flow \<Rightarrow> string \<times> Flow" where
  "uid env f =
     (if username (flags f) \<noteq> [] then (username (flags f), f)
      else let f1 = f\<lparr>interactive := True\<rparr>
           in (promptInput env (trace f1) ''Username: '', emit (PromptInput ''Username: '') f1))"

definition password' :: "env \<Rightarrow> Flow \<Rightarrow> string \<times> Flow" where
  "password' env f =
     (if password (flags f) \<noteq> [] then (password (flags f), f)
      else let f1 = f\<lparr>interactive := True\<rparr>
           in (promptPassword env (trace f1) ''Password: '',
               emit (PromptPassword ''Password: '') f1))"

definition serviceClaims :: "string \<Rightarrow> int \<Rightarrow> (string \<rightharpoonup> claim)" where
  "serviceClaims u now =
     [''uid'' \<mapsto> ClaimString u, ''exp'' \<mapsto> ClaimInt (Unix (Add now (5 * Minute)))]"

definition serviceToken :: "env \<Rightarrow> string \<Rightarrow> Flow \<Rightarrow> error + string" where
  "serviceToken env u f =
     SignedString env
       \<lparr>Method = ''RS256'', Claims = serviceClaims u (timeNow env (trace f))\<rparr>
       (privateKey (flags f))"

definition fallbackMsg :: "string \<Rightarrow> string" where
  "fallbackMsg url =
     ''If your browser didn't open, please follow this link:'' @ [CHR 0x0A, CHR 0x0A]
       @ ''    '' @ url @ [CHR 0x0A, CHR 0x0A]"

text \<open>
  The first statement of \<open>openBrowser\<close>: a URL that begins with a slash is replaced
  by the URL of the request the HTTP client builds for it, and that can fail.
\<close>

definition resolveURL :: "env \<Rightarrow> string \<Rightarrow> error + string" where
  "resolveURL env startFlowURL =
     (if HasPrefix startFlowURL ''/''
      then httpNewRequest env ''GET'' startFlowURL
      else Inr startFlowURL)"

definition openBrowser :: "env \<Rightarrow> string \<Rightarrow> Flow \<Rightarrow> error option \<times> Flow" where
  "openBrowser env startFlowURL f =
     (case resolveURL env startFlowURL of
        Inl err \<Rightarrow> (Some err, f)
      | Inr url \<Rightarrow>
          (let f1 = (case openerOpen env (trace f) url of
                       Some err \<Rightarrow> emit (LogError err) (emit (Opened url) f)
                     | None \<Rightarrow> emit (Opened url) f)
           in (None, emit (Errout (fallbackMsg url)) f1)))"

subsection \<open>selectProvider\<close>

text \<open>The \<open>for ... range providers.Slice()\<close> loop, with the candidates so far.\<close>

fun candidates :: "env \<Rightarrow> Provider list \<Rightarrow> Provider list \<Rightarrow> Flow \<Rightarrow> Provider list \<times> Flow" where
  "candidates env [] providerCandidates f = (providerCandidates, f)"
| "candidates env (provider # rest) providerCandidates f =
     (if Supports env (flags f) provider
      then candidates env rest (providerCandidates @ [provider]) f
      else candidates env rest providerCandidates
             (emit (LogInfo (''Excluding provider '' @ quoted (ID provider)
                       @ '' based on command-line flags.'')) f))"

definition selectProvider :: "env \<Rightarrow> Providers \<Rightarrow> Flow \<Rightarrow> (error + Provider) \<times> Flow" where
  "selectProvider env providers f =
     (if providerID (flags f) \<noteq> [] then
        (case providers (providerID (flags f)) of
           Some provider \<Rightarrow> (Inr provider, f)
         | None \<Rightarrow>
             (Inl (Err (''unknown login provider ID '' @ quoted (providerID (flags f)))), f))
      else
        (case candidates env (Slice env providers) [] f of
           (providerCandidates, f1) \<Rightarrow>
             (case providerCandidates of
                [] \<Rightarrow> (Inl (Err ''couldn't determine a login provider''), f1)
              | [provider] \<Rightarrow> (Inr provider, f1)
              | _ \<Rightarrow>
                  (case promptSelect env (trace f1) ''Please select a login method:''
                          providerCandidates of
                     (i, err) \<Rightarrow>
                       (let f2 = emit (PromptSelect ''Please select a login method:''
                                         providerCandidates) f1
                        in case err of
                             Some e \<Rightarrow> (Inl e, f2)
                           | None \<Rightarrow>
                               if 0 \<le> i \<and> i < int (length providerCandidates)
                               then (Inr (providerCandidates ! nat i), f2)
                               else (Inl (Panic ''index out of range''), f2))))))"

subsection \<open>triggerMethod\<close>

text \<open>
  The \<open>switch\<close> of one pass through the loop of \<open>triggerMethod\<close>: it takes the login
  endpoint and the credentials as the last pass left them and returns them updated,
  or the error with which \<open>triggerMethod\<close> returns at once.
\<close>

definition acquire ::
  "env \<Rightarrow> Provider \<Rightarrow> nat \<Rightarrow> string \<Rightarrow> Credentials \<Rightarrow> Flow
     \<Rightarrow> (error + string \<times> Credentials) \<times> Flow" where
  "acquire env provider attempt loginEndpoint credentials f =
     (case ClientMethod provider of
        methodCredential \<Rightarrow>
          (case uid env f of (u, f1) \<Rightarrow>
             (case password' env f1 of (p, f2) \<Rightarrow>
                (Inr (StartFlowURL (Config provider),
                      credentials\<lparr>UID := u, Password := p\<rparr>), f2)))
      | methodUserCredential \<Rightarrow>
          (case uid env f of (u, f1) \<Rightarrow>
             (case password' env f1 of (p, f2) \<Rightarrow>
                (Inr (StartFlowURL (Config provider),
                      credentials\<lparr>UID := u, Password := p\<rparr>), f2)))
      | methodServiceCredential \<Rightarrow>
          (case uid env f of (u, f1) \<Rightarrow>
             (case serviceToken env u f1 of
                Inl err \<Rightarrow> (Inl err, f1)
              | Inr token \<Rightarrow>
                  (Inr (loginEndpoint, credentials\<lparr>UID := u, Token := token\<rparr>), f1)))
      | methodBrowserToken \<Rightarrow>
          (case (if attempt = 1
                 then openBrowser env (StartFlowURL (Config provider)) f
                 else (None, f)) of
             (Some err, f1) \<Rightarrow> (Inl err, f1)
           | (None, f1) \<Rightarrow>
               (let f2 = f1\<lparr>interactive := True\<rparr>
                in (Inr (loginEndpoint,
                         credentials\<lparr>Token :=
                           promptInput env (trace f2) ''Enter token from the browser: ''\<rparr>),
                    emit (PromptInput ''Enter token from the browser: '') f2)))
      | methodOther m \<Rightarrow> (Inr (loginEndpoint, credentials), f))"

function triggerLoop ::
  "env \<Rightarrow> Provider \<Rightarrow> nat \<Rightarrow> string \<Rightarrow> Credentials \<Rightarrow> Flow
     \<Rightarrow> (string \<times> error option) \<times> Flow" where
  "triggerLoop env provider attempt loginEndpoint credentials f =
     (case acquire env provider attempt loginEndpoint credentials f of
        (Inl err, f1) \<Rightarrow> (([], Some err), f1)
      | (Inr (loginEndpoint1, credentials1), f1) \<Rightarrow>
          (case clientLogin env (trace f1) loginEndpoint1 credentials1 of
             (acsToken, err) \<Rightarrow>
               (let f2 = emit (LoginCall loginEndpoint1 credentials1 (acsToken, err)) f1
                in if err = None \<or> \<not> interactive f2 \<or> attempt \<ge> 3
                   then ((acsToken, err), f2)
                   else triggerLoop env provider (attempt + 1) loginEndpoint1 credentials1 f2)))"
  by pat_completeness auto
termination
  by (relation "measure (\<lambda>(env, provider, attempt, loginEndpoint, credentials, f). 3 - attempt)")
     auto

declare triggerLoop.simps [simp del]

definition triggerMethod :: "env \<Rightarrow> Provider \<Rightarrow> Flow \<Rightarrow> (string \<times> error option) \<times> Flow" where
  "triggerMethod env provider f =
     triggerLoop env provider 1 [] \<lparr>UID = [], Password = [], Token = []\<rparr> f"

subsection \<open>Start\<close>

definition Start :: "env \<Rightarrow> Flags \<Rightarrow> Flow \<Rightarrow> (string \<times> error option) \<times> Flow" where
  "Start env flags0 f =
     (case Resolve env flags0 of
        Inl err \<Rightarrow> (([], Some err), f)
      | Inr resolved \<Rightarrow>
          (let f1 = f\<lparr>flags := resolved\<rparr>;
               f2 = emit FetchedProviders f1
           in case clientProviders env (trace f1) of
                Inl err \<Rightarrow> (([], Some err), f2)
              | Inr providers \<Rightarrow>
                  (case selectProvider env providers f2 of
                     (Inl err, f3) \<Rightarrow> (([], Some err), f3)
                   | (Inr provider, f3) \<Rightarrow>
                       triggerMethod env provider
                         (emit (LogInfo (''Using login provider '' @ quoted (Type provider)
                                  @ ''.'')) f3))))"

subsection \<open>Observations on a run\<close>

text \<open>
  \<open>prompts provider fl\<close>: the first pass through the loop asks the user for a value
  (\<open>uid\<close> with no user name flag, \<open>password\<close> with no password flag, the token of
  the browser method), and so sets the interactivity flag.
\<close>

definition prompts :: "Provider \<Rightarrow> Flags \<Rightarrow> bool" where
  "prompts provider fl =
     (case ClientMethod provider of
        methodCredential \<Rightarrow> username fl = [] \<or> password fl = []
      | methodUserCredential \<Rightarrow> username fl = [] \<or> password fl = []
      | methodServiceCredential \<Rightarrow> username fl = []
      | methodBrowserToken \<Rightarrow> True
      | methodOther m \<Rightarrow> False)"

text \<open>The answer to the login call that is the last event of a trace, if it is one.\<close>

definition lastLogin :: "event list \<Rightarrow> (string \<times> error option) option" where
  "lastLogin tr = (case rev tr of LoginCall ep c r # earlier \<Rightarrow> Some r | _ \<Rightarrow> None)"

text \<open>
  \<open>rejectedAfter n f r\<close>: the run from \<open>f\<close> that returned \<open>r\<close> made \<open>n\<close> login
  calls, the last of them its last event, and returned the failure of that call.
\<close>

definition rejectedAfter :: "nat \<Rightarrow> Flow \<Rightarrow> (string \<times> error option) \<times> Flow \<Rightarrow> bool" where
  "rejectedAfter n f r =
     (case r of ((tok, err), f') \<Rightarrow>
        err \<noteq> None \<and> loginAttempts (trace f') = loginAttempts (trace f) + n
        \<and> lastLogin (trace f') = Some (tok, err) \<and> flags f' = flags f \<and> interactive f')"

text \<open>
  The events of one pass of the browser method after the first: the token prompt,
  then the login call with the token typed and its answer.
\<close>

definition tokenPrompt :: string where
  "tokenPrompt = ''Enter token from the browser: ''"

definition tokenRound ::
  "string \<Rightarrow> Credentials \<Rightarrow> string \<times> (string \<times> error option) \<Rightarrow> event list" where
  "tokenRound ep c x = [PromptInput tokenPrompt, LoginCall ep (c\<lparr>Token := fst x\<rparr>) (snd x)]"

abbreviation browserRounds ::
  "nat \<Rightarrow> string \<Rightarrow> Credentials \<Rightarrow> Flow \<Rightarrow> (string \<times> error option) \<times> Flow \<Rightarrow> bool" where
  "browserRounds m ep c f0 r \<equiv>
     (\<exists>rounds. 1 \<le> length rounds \<and> length rounds \<le> m
        \<and> trace (snd r) = trace f0 @ concat (map (tokenRound ep c) rounds)
        \<and> fst r = snd (last rounds))"

text \<open>
  \<open>acquisitionError\<close>: the error is one with which a pass can fail to obtain its
  credentials, a refusal of the signer or a failed resolution of the start-flow URL.
  \<open>abortedWithin n\<close>: the run returned such an error after fewer than \<open>n\<close> login
  calls.
\<close>

abbreviation acquisitionError :: "env \<Rightarrow> Provider \<Rightarrow> Flags \<Rightarrow> error \<Rightarrow> bool" where
  "acquisitionError env provider fl e \<equiv>
     (ClientMethod provider = methodServiceCredential
        \<and> (\<exists>t. SignedString env t (privateKey fl) = Inl e))
     \<or> (ClientMethod provider = methodBrowserToken
        \<and> resolveURL env (StartFlowURL (Config provider)) = Inl e)"

abbreviation abortedWithin ::
  "nat \<Rightarrow> env \<Rightarrow> Provider \<Rightarrow> Flow \<Rightarrow> (string \<times> error option) \<times> Flow \<Rightarrow> bool" where
  "abortedWithin n env provider f r \<equiv>
     (\<exists>e. fst r = ([], Some e)
        \<and> loginAttempts (trace (snd r)) < loginAttempts (trace f) + n
        \<and> acquisitionError env provider (flags f) e)"

definition noCredentials :: Credentials where
  "noCredentials = \<lparr>UID = [], Password = [], Token = []\<rparr>"

subsection \<open>Example providers, collaborators and flows\<close>

definition p1 :: Provider where
  "p1 = \<lparr>ID = ''p1'', Type = ''dcos-uid-password'', ClientMethod = methodCredential,
          Config = \<lparr>StartFlowURL = ''/acs/api/v1/auth/login''\<rparr>\<rparr>"

definition p2 :: Provider where
  "p2 = \<lparr>ID = ''p2'', Type = ''oidc-implicit-flow'', ClientMethod = methodBrowserToken,
          Config = \<lparr>StartFlowURL = ''/login?oob=1''\<rparr>\<rparr>"

definition p3 :: Provider where
  "p3 = \<lparr>ID = ''p3'', Type = ''dcos-uid-servicekey'', ClientMethod = methodServiceCredential,
          Config = \<lparr>StartFlowURL = ''/acs/api/v1/auth/login''\<rparr>\<rparr>"

definition p4 :: Provider where
  "p4 = \<lparr>ID = ''p4'', Type = ''saml-sp-initiated'', ClientMethod = methodBrowserToken,
          Config = \<lparr>StartFlowURL = ''https://sso.example.com/start''\<rparr>\<rparr>"

definition catalog :: Providers where
  "catalog = [''p1'' \<mapsto> p1, ''p2'' \<mapsto> p2]"

text \<open>
  \<open>env0\<close>: every provider is compatible, the user picks the second entry and types
  \<open>typed\<close>, the login endpoint rejects every submission, the browser does not open,
  and the signer refuses the empty key.
\<close>

definition env0 :: env where
  "env0 = \<lparr>Resolve = Inr, Supports = (\<lambda>fl p. True),
     clientProviders = (\<lambda>h. Inr catalog),
     Slice = (\<lambda>ps. [p1, p2]),
     promptSelect = (\<lambda>h m ps. (1, None)),
     promptInput = (\<lambda>h m. ''typed''),
     promptPassword = (\<lambda>h m. ''hunter2''),
     clientLogin = (\<lambda>h ep c. ([], Some (Err ''401 Unauthorized''))),
     httpNewRequest = (\<lambda>m path. Inr (''https://dcos.example.com'' @ path)),
     openerOpen = (\<lambda>h u. Some (Err ''xdg-open not found'')),
     timeNow = (\<lambda>h. 1600000000123456789),
     SignedString = (\<lambda>t k. if k = [] then Inl (Err ''key is invalid'') else Inr ''signed'')\<rparr>"

text \<open>\<open>envStrict\<close>: as \<open>env0\<close>, but no provider is compatible with the flags.\<close>

definition envStrict :: env where
  "envStrict = env0\<lparr>Supports := (\<lambda>fl p. False)\<rparr>"

text \<open>\<open>envNoURL\<close>: as \<open>env0\<close>, but the HTTP client cannot build the request.\<close>

definition envNoURL :: env where
  "envNoURL = env0\<lparr>httpNewRequest := (\<lambda>m path. Inl (Err ''invalid URL escape''))\<rparr>"

definition noFlags :: Flags where
  "noFlags = \<lparr>providerID = [], username = [], password = [], privateKey = []\<rparr>"

definition flow0 :: Flow where
  "flow0 = \<lparr>flags = noFlags, interactive = False, trace = []\<rparr>"

definition flowFlags :: Flow where
  "flowFlags = \<lparr>flags = \<lparr>providerID = [], username = ''alice'', password = ''secret'',
                          privateKey = ''PEM''\<rparr>,
               interactive = False, trace = []\<rparr>"

text \<open>\<open>flowNoKey\<close>: user name and password are given, the private key is empty.\<close>

definition flowNoKey :: Flow where
  "flowNoKey = \<lparr>flags = \<lparr>providerID = [], username = ''alice'', password = ''secret'',
                          privateKey = []\<rparr>,
               interactive = False, trace = []\<rparr>"

definition flowP2 :: Flow where
  "flowP2 = \<lparr>flags = noFlags\<lparr>providerID := ''p2''\<rparr>, interactive = False, trace = []\<rparr>"

definition flowMissing :: Flow where
  "flowMissing = \<lparr>flags = noFlags\<lparr>providerID := ''missing''\<rparr>, interactive = False, trace = []\<rparr>"

section \<open>Properties\<close>

subsection \<open>Traces\<close>

lemma loginAttempts_append: "loginAttempts (xs @ ys) = loginAttempts xs + loginAttempts ys"
  by (simp add: loginAttempts_def)

lemma openedURLs_append: "openedURLs (xs @ ys) = openedURLs xs @ openedURLs ys"
  by (simp add: openedURLs_def)


lemma emit_fields:
  "loginAttempts (trace (emit (LoginCall ep c r) f)) = loginAttempts (trace f) + 1"
  "lastLogin (trace (emit (LoginCall ep c r) f)) = Some r"
  "flags (emit ev f) = flags f"
  "interactive (emit ev f) = interactive f"
  by (simp_all add: emit_def loginAttempts_def isLoginCall_def lastLogin_def)

lemma tokenRound_Token [simp]: "tokenRound ep (c\<lparr>Token := t\<rparr>) = tokenRound ep c"
  by (rule ext) (simp add: tokenRound_def)

lemma rounds_openedURLs: "openedURLs (concat (map (tokenRound ep c) rounds)) = []"
  by (induction rounds) (simp_all add: openedURLs_def tokenRound_def)


lemma rounds_loginAttempts:
  "loginAttempts (concat (map (tokenRound ep c) rounds)) = length rounds"
  by (induction rounds) (simp_all add: loginAttempts_def isLoginCall_def tokenRound_def)


subsection \<open>The time of expiry\<close>

lemma Unix_Add_Minutes: "Unix (Add t (5 * Minute)) = Unix t + 300"
  by (simp add: Unix_def Add_def Minute_def)

subsection \<open>The candidate loop and the selection\<close>

lemma candidates_fst:
  "fst (candidates env ps acc f) = acc @ filter (Supports env (flags f)) ps"
  by (induction ps arbitrary: acc f) (simp_all add: emit_def)

lemma candidates_interactive: "interactive (snd (candidates env ps acc f)) = interactive f"
  by (induction ps arbitrary: acc f) (simp_all add: emit_def)

lemma candidates_loginAttempts:
  "loginAttempts (trace (snd (candidates env ps acc f))) = loginAttempts (trace f)"
  by (induction ps arbitrary: acc f)
     (simp_all add: emit_def loginAttempts_append, simp add: loginAttempts_def isLoginCall_def)

lemma selectProvider_interactive:
  "interactive (snd (selectProvider env providers f)) = interactive f"
  using candidates_interactive [of env "Slice env providers" "[]" f]
  by (auto simp: selectProvider_def emit_def Let_def split: option.splits prod.splits list.splits)

lemma selectProvider_loginAttempts:
  "loginAttempts (trace (snd (selectProvider env providers f))) = loginAttempts (trace f)"
  using candidates_loginAttempts [of env "Slice env providers" "[]" f]
  by (auto simp: selectProvider_def emit_def Let_def loginAttempts_def isLoginCall_def
           split: option.splits prod.splits list.splits)

lemma selectProvider_none:
  assumes "providerID (flags f) = []"
      and "\<forall>p\<in>set (Slice env providers). \<not> Supports env (flags f) p"
  shows "fst (selectProvider env providers f) = Inl (Err ''couldn't determine a login provider'')"
proof -
  have "fst (candidates env (Slice env providers) [] f) = []"
    using assms(2) by (simp add: candidates_fst)
  then obtain g where "candidates env (Slice env providers) [] f = ([], g)"
    by (cases "candidates env (Slice env providers) [] f") simp
  then show ?thesis
    using assms(1) by (simp add: selectProvider_def)
qed

subsection \<open>Opening the browser\<close>

lemma openBrowser_resolved:
  assumes "resolveURL env u = Inr url"
  shows "openBrowser env u f =
           (None, f\<lparr>trace := trace f @ [Opened url]
                      @ (case openerOpen env (trace f) url of None \<Rightarrow> [] | Some e \<Rightarrow> [LogError e])
                      @ [Errout (fallbackMsg url)]\<rparr>)"
  using assms by (simp add: openBrowser_def emit_def Let_def split: option.splits)

lemma openBrowser_unresolved:
  assumes "resolveURL env u = Inl e"
  shows "openBrowser env u f = (Some e, f)"
  using assms by (simp add: openBrowser_def)

lemma openBrowser_openedURLs:
  assumes "resolveURL env u = Inr url"
  shows "openedURLs (trace (snd (openBrowser env u f))) = openedURLs (trace f) @ [url]"
  by (cases "openerOpen env (trace f) url")
     (simp_all add: openBrowser_resolved [OF assms] openedURLs_def)


subsection \<open>Selecting a provider\<close>

text \<open>
  C1, as amended. When provider selection falls through to manual selection (no
  provider ID in the flags, more than one compatible candidate), the index the prompt
  returns selects the provider among the compatible candidates, and the interactivity
  flag of the flow is left as it was: \<open>selectProvider\<close> never sets it.
\<close>

theorem selectProvider_manual:
  assumes "providerID (flags f) = []"
      and "candidates env (Slice env providers) [] f = (cands, f1)"
      and "1 < length cands"
      and "promptSelect env (trace f1) ''Please select a login method:'' cands = (i, None)"
      and "0 \<le> i" and "i < int (length cands)"
  shows "selectProvider env providers f =
           (Inr (cands ! nat i), emit (PromptSelect ''Please select a login method:'' cands) f1)
       \<and> cands = filter (Supports env (flags f)) (Slice env providers)
       \<and> interactive (snd (selectProvider env providers f)) = interactive f"
proof -
  obtain a b rest where c: "cands = a # b # rest"
    using assms(3) by (cases cands; cases "tl cands") auto
  have sel: "selectProvider env providers f =
          (Inr (cands ! nat i), emit (PromptSelect ''Please select a login method:'' cands) f1)"
    using assms(1,2,4,5,6) unfolding c by (simp add: selectProvider_def)
  have flt: "cands = filter (Supports env (flags f)) (Slice env providers)"
    using candidates_fst [of env "Slice env providers" "[]" f] assms(2) by simp
  show ?thesis
    by (intro conjI) (rule sel, rule flt, rule selectProvider_interactive)
qed

text \<open>
  The amended statement on \<open>env0\<close>: both providers are candidates, the user picks the
  second, and the flag stays false.
\<close>

theorem selectProvider_manual_witness:
  "providerID (flags flow0) = []
   \<and> candidates env0 (Slice env0 catalog) [] flow0 = ([p1, p2], flow0)
   \<and> promptSelect env0 (trace flow0) ''Please select a login method:'' [p1, p2] = (1, None)
   \<and> selectProvider env0 catalog flow0 =
       (Inr p2, emit (PromptSelect ''Please select a login method:'' [p1, p2]) flow0)
   \<and> interactive (snd (selectProvider env0 catalog flow0)) = interactive flow0"
proof -
  have h1: "providerID (flags flow0) = []"
    by (simp add: flow0_def noFlags_def)
  have h2: "candidates env0 (Slice env0 catalog) [] flow0 = ([p1, p2], flow0)"
    by (simp add: env0_def flow0_def)
  have h3: "1 < length [p1, p2]" by simp
  have h4: "promptSelect env0 (trace flow0) ''Please select a login method:'' [p1, p2] = (1, None)"
    by (simp add: env0_def)
  have h5: "(0::int) \<le> 1" and h6: "1 < int (length [p1, p2])" by simp_all
  have "nat 1 = 1" "[p1, p2] ! 1 = p2" by simp_all
  then show ?thesis
    using selectProvider_manual [OF h1 h2 h3 h4 h5 h6] h1 h2 h4
    by (elim conjE) (intro conjI; simp only:)
qed

text \<open>
  The statement as the specification has it fails: with no provider ID and two
  compatible providers the user is asked to choose, chooses \<open>p2\<close>, and the
  interactivity flag is still false afterwards.
\<close>

theorem selectProvider_manual_counterexample:
  "providerID (flags flow0) = []
   \<and> fst (candidates env0 (Slice env0 catalog) [] flow0) = [p1, p2]
   \<and> fst (selectProvider env0 catalog flow0) = Inr p2
   \<and> trace (snd (selectProvider env0 catalog flow0)) =
       [PromptSelect ''Please select a login method:'' [p1, p2]]
   \<and> \<not> interactive (snd (selectProvider env0 catalog flow0))"
  by (simp add: selectProvider_def env0_def flow0_def noFlags_def emit_def)

text \<open>
  C5. If the resolved flags carry a non-empty provider ID, \<open>selectProvider\<close> returns
  the catalog entry of that ID and leaves the flow as it was: the compatibility
  predicate \<open>Supports\<close>, the candidate loop and the prompt play no part in the result,
  so a provider that is incompatible with the flags is returned all the same. If the
  catalog has no entry for the ID, the result is an error whose message carries the
  requested ID between quotes, whatever the catalog holds.
\<close>

theorem selectProvider_explicit:
  assumes "providerID (flags f) \<noteq> []"
  shows "selectProvider env providers f =
           (case providers (providerID (flags f)) of
              Some provider \<Rightarrow> (Inr provider, f)
            | None \<Rightarrow>
                (Inl (Err (''unknown login provider ID '' @ [CHR 0x27]
                             @ providerID (flags f) @ [CHR 0x27])), f))"
  using assms by (simp add: selectProvider_def quoted_def split: option.splits)

text \<open>
  On \<open>envStrict\<close> no provider is compatible with the flags; \<open>p2\<close> is returned when
  asked for by ID, and the ID \<open>missing\<close> is reported.
\<close>

theorem selectProvider_explicit_witness:
  "providerID (flags flowP2) \<noteq> [] \<and> \<not> Supports envStrict (flags flowP2) p2
   \<and> selectProvider envStrict catalog flowP2 = (Inr p2, flowP2)
   \<and> providerID (flags flowMissing) \<noteq> []
   \<and> selectProvider envStrict catalog flowMissing =
       (Inl (Err (''unknown login provider ID '' @ [CHR 0x27] @ ''missing'' @ [CHR 0x27])),
        flowMissing)"
proof -
  have h1: "providerID (flags flowP2) \<noteq> []"
    by (simp add: flowP2_def noFlags_def)
  have h2: "providerID (flags flowMissing) \<noteq> []"
    by (simp add: flowMissing_def noFlags_def)
  have "catalog (providerID (flags flowP2)) = Some p2"
    by (simp add: catalog_def flowP2_def noFlags_def)
  moreover have "catalog (providerID (flags flowMissing)) = None"
       "providerID (flags flowMissing) = ''missing''"
    by (simp_all add: catalog_def flowMissing_def noFlags_def)
  moreover have "\<not> Supports envStrict (flags flowP2) p2"
    by (simp add: envStrict_def env0_def)
  ultimately show ?thesis
    using selectProvider_explicit [OF h1, of envStrict catalog]
          selectProvider_explicit [OF h2, of envStrict catalog] h1 h2
    by simp
qed

text \<open>
  C7. When the resolved flags carry no provider ID and no provider of the catalog is
  compatible with them, \<open>selectProvider\<close> fails with the error
  \<open>couldn't determine a login provider\<close>, \<open>Start\<close> returns that error, and the
  run submits no login request: the trace has no more login calls than before.
\<close>

theorem Start_no_provider:
  assumes "Resolve env flags0 = Inr resolved"
      and "providerID resolved = []"
      and "clientProviders env (trace f) = Inr providers"
      and "\<forall>p\<in>set (Slice env providers). \<not> Supports env resolved p"
  shows "fst (selectProvider env providers (emit FetchedProviders (f\<lparr>flags := resolved\<rparr>)))
           = Inl (Err ''couldn't determine a login provider'')
       \<and> fst (Start env flags0 f) = ([], Some (Err ''couldn't determine a login provider''))
       \<and> loginAttempts (trace (snd (Start env flags0 f))) = loginAttempts (trace f)"
proof -
  let ?g = "emit FetchedProviders (f\<lparr>flags := resolved\<rparr>)"
  have fl: "flags ?g = resolved"
    by (simp add: emit_def)
  have sel: "fst (selectProvider env providers ?g) = Inl (Err ''couldn't determine a login provider'')"
    using assms(2,4) fl by (simp add: selectProvider_none)
  have la: "loginAttempts (trace (snd (selectProvider env providers ?g))) = loginAttempts (trace f)"
    by (simp add: selectProvider_loginAttempts) (simp add: emit_def loginAttempts_def isLoginCall_def)
  obtain r g' where sp: "selectProvider env providers ?g = (r, g')"
    by (cases "selectProvider env providers ?g")
  with sel la have "r = Inl (Err ''couldn't determine a login provider'')"
      and "loginAttempts (trace g') = loginAttempts (trace f)"
    by simp_all
  then have "fst (Start env flags0 f) = ([], Some (Err ''couldn't determine a login provider''))
       \<and> loginAttempts (trace (snd (Start env flags0 f))) = loginAttempts (trace f)"
    using assms(1,3) sp by (simp add: Start_def Let_def)
  with sel show ?thesis by simp
qed

text \<open>
  On \<open>envStrict\<close> the catalog has two providers and neither is compatible: the run
  ends after the catalog fetch and the two exclusion messages.
\<close>

theorem Start_no_provider_witness:
  "Resolve envStrict noFlags = Inr noFlags \<and> providerID noFlags = []
   \<and> clientProviders envStrict (trace flow0) = Inr catalog
   \<and> Slice envStrict catalog = [p1, p2]
   \<and> \<not> Supports envStrict noFlags p1 \<and> \<not> Supports envStrict noFlags p2
   \<and> fst (Start envStrict noFlags flow0) = ([], Some (Err ''couldn't determine a login provider''))
   \<and> loginAttempts (trace (snd (Start envStrict noFlags flow0))) = loginAttempts (trace flow0)"
proof -
  have h1: "Resolve envStrict noFlags = Inr noFlags"
    by (simp add: envStrict_def env0_def)
  have h2: "providerID noFlags = []"
    by (simp add: noFlags_def)
  have h3: "clientProviders envStrict (trace flow0) = Inr catalog"
    by (simp add: envStrict_def env0_def)
  have h4: "\<forall>p\<in>set (Slice envStrict catalog). \<not> Supports envStrict noFlags p"
    by (simp add: envStrict_def env0_def)
  have h5: "Slice envStrict catalog = [p1, p2]"
      and h6: "\<not> Supports envStrict noFlags p1" "\<not> Supports envStrict noFlags p2"
    by (simp_all add: envStrict_def env0_def)
  show ?thesis
    using Start_no_provider [OF h1 h2 h3 h4] h1 h2 h3 h5 h6 by blast
qed

subsection \<open>The service token\<close>

text \<open>
  C6. For any UID and key, the token \<open>serviceToken\<close> hands to the signer names the
  method RS256 and has exactly two claims: \<open>uid\<close>, the UID, and \<open>exp\<close>, the Unix
  time in seconds of the wall clock at issuance plus 300. What \<open>serviceToken\<close>
  returns is what the signer returns for that token and the private key of the flags.
\<close>

theorem serviceToken_claims:
  "serviceToken env u f =
     SignedString env
       \<lparr>Method = ''RS256'',
        Claims = [''uid'' \<mapsto> ClaimString u,
                  ''exp'' \<mapsto> ClaimInt (Unix (timeNow env (trace f)) + 300)]\<rparr>
       (privateKey (flags f))
   \<and> dom (serviceClaims u (timeNow env (trace f))) = {''uid'', ''exp''}"
  by (auto simp: serviceToken_def serviceClaims_def Unix_Add_Minutes)

text \<open>
  At 1600000000.123456789 s after the epoch the token of \<open>alice\<close> expires at
  1600000300, and with the key of \<open>flowFlags\<close> the signer accepts it.
\<close>

theorem serviceToken_claims_witness:
  "serviceToken env0 ''alice'' flowFlags = Inr ''signed''
   \<and> SignedString env0
        \<lparr>Method = ''RS256'',
         Claims = [''uid'' \<mapsto> ClaimString ''alice'', ''exp'' \<mapsto> ClaimInt 1600000300]\<rparr>
        (privateKey (flags flowFlags)) = Inr ''signed''"
proof -
  have "Unix (timeNow env0 (trace flowFlags)) + 300 = 1600000300"
    by (simp add: env0_def Unix_def)
  moreover have "SignedString env0 t (privateKey (flags flowFlags)) = Inr ''signed''" for t
    by (simp add: env0_def flowFlags_def)
  ultimately show ?thesis
    using serviceToken_claims [of env0 "''alice''" flowFlags] by simp
qed

subsection \<open>The URL the browser is sent to\<close>



subsection \<open>One pass through the loop\<close>

lemmas acquire_unfold =
  acquire_def uid_def password'_def openBrowser_def emit_def Let_def

lemma acquire_flags:
  "acquire env p a ep c f = (r, f1) \<Longrightarrow> flags f1 = flags f"
  by (auto simp: acquire_unfold
           split: ClientMethod.splits if_splits sum.splits option.splits prod.splits)

lemma acquire_interactive_mono:
  "acquire env p a ep c f = (r, f1) \<Longrightarrow> interactive f \<Longrightarrow> interactive f1"
  by (auto simp: acquire_unfold
           split: ClientMethod.splits if_splits sum.splits option.splits prod.splits)

lemma acquire_prompts:
  "acquire env p a ep c f = (Inr x, f1) \<Longrightarrow> prompts p (flags f) \<Longrightarrow> interactive f1"
  by (auto simp: acquire_unfold prompts_def
           split: ClientMethod.splits if_splits sum.splits option.splits prod.splits)

lemma acquire_loginAttempts:
  "acquire env p a ep c f = (r, f1) \<Longrightarrow> loginAttempts (trace f1) = loginAttempts (trace f)"
  by (auto simp: acquire_unfold loginAttempts_def isLoginCall_def
           split: ClientMethod.splits if_splits sum.splits option.splits prod.splits)

lemma acquire_succeeds:
  assumes "ClientMethod p = methodServiceCredential \<longrightarrow>
             (\<forall>t. \<exists>s. SignedString env t (privateKey (flags f)) = Inr s)"
      and "ClientMethod p = methodBrowserToken \<longrightarrow>
             (\<exists>u. resolveURL env (StartFlowURL (Config p)) = Inr u)"
  shows "\<exists>ep1 c1 f1. acquire env p a ep c f = (Inr (ep1, c1), f1)"
proof (cases "ClientMethod p")
  case methodServiceCredential
  obtain u f1 where u: "uid env f = (u, f1)"
    by (cases "uid env f")
  then have "privateKey (flags f1) = privateKey (flags f)"
    by (auto simp: uid_def emit_def Let_def split: if_splits)
  with assms(1) methodServiceCredential obtain s where "serviceToken env u f1 = Inr s"
    unfolding serviceToken_def by metis
  with u methodServiceCredential show ?thesis
    by (simp add: acquire_def)
next
  case methodBrowserToken
  with assms(2) obtain u where "resolveURL env (StartFlowURL (Config p)) = Inr u"
    by blast
  with methodBrowserToken show ?thesis
    by (simp add: acquire_def openBrowser_def Let_def)
qed (auto simp: acquire_def split: prod.splits)

lemma browser_acquire_later:
  assumes "ClientMethod p = methodBrowserToken" and "a \<noteq> 1"
  shows "acquire env p a ep c f =
           (Inr (ep, c\<lparr>Token := promptInput env (trace f) tokenPrompt\<rparr>),
            emit (PromptInput tokenPrompt) (f\<lparr>interactive := True\<rparr>))"
  using assms by (simp add: acquire_def Let_def tokenPrompt_def)

lemma browser_acquire_first:
  assumes "ClientMethod p = methodBrowserToken"
      and "openBrowser env (StartFlowURL (Config p)) f = (None, f0)"
  shows "acquire env p 1 ep c f =
           (Inr (ep, c\<lparr>Token := promptInput env (trace f0) tokenPrompt\<rparr>),
            emit (PromptInput tokenPrompt) (f0\<lparr>interactive := True\<rparr>))"
  using assms by (simp add: acquire_def Let_def tokenPrompt_def)

lemma browser_acquire_abort:
  assumes "ClientMethod p = methodBrowserToken"
      and "resolveURL env (StartFlowURL (Config p)) = Inl e"
  shows "acquire env p 1 ep c f = (Inl e, f)"
  using assms by (simp add: acquire_def openBrowser_unresolved)

lemma browser_acquire_interactive:
  assumes "ClientMethod p = methodBrowserToken"
      and "acquire env p a ep c f = (Inr x, f1)"
  shows "interactive f1"
  using assms(2) acquire_prompts [of env p a ep c f x f1] assms(1)
  by (simp add: prompts_def)

lemma loop_step_fail:
  "acquire env p a ep c f = (Inl err, f1)
     \<Longrightarrow> triggerLoop env p a ep c f = (([], Some err), f1)"
  by (subst triggerLoop.simps) simp

lemma loop_step_reject:
  "acquire env p a ep c f = (Inr (ep1, c1), f1)
     \<Longrightarrow> clientLogin env (trace f1) ep1 c1 = (tok, Some e)
     \<Longrightarrow> triggerLoop env p a ep c f =
           (if \<not> interactive f1 \<or> 3 \<le> a
            then ((tok, Some e), emit (LoginCall ep1 c1 (tok, Some e)) f1)
            else triggerLoop env p (a + 1) ep1 c1 (emit (LoginCall ep1 c1 (tok, Some e)) f1))"
  by (subst triggerLoop.simps) (simp add: emit_def)

lemma single_attempt:
  assumes "acquire env p a ep c f = (Inr (ep1, c1), f1)"
      and "\<not> interactive f1"
      and "clientLogin env (trace f1) ep1 c1 = (tok, err)"
  shows "triggerLoop env p a ep c f = ((tok, err), emit (LoginCall ep1 c1 (tok, err)) f1)"
  using assms by (subst triggerLoop.simps) (simp add: emit_def)

subsection \<open>The retry bound\<close>

lemma retry_last:
  assumes rej: "\<forall>h ep c. snd (clientLogin env h ep c) \<noteq> None"
      and sign: "ClientMethod p = methodServiceCredential \<longrightarrow>
                   (\<forall>t. \<exists>s. SignedString env t (privateKey (flags f)) = Inr s)"
      and url: "ClientMethod p = methodBrowserToken \<longrightarrow>
                   (\<exists>u. resolveURL env (StartFlowURL (Config p)) = Inr u)"
      and int: "interactive f \<or> prompts p (flags f)"
      and a: "3 \<le> a"
  shows "rejectedAfter 1 f (triggerLoop env p a ep c f)"
proof -
  obtain ep1 c1 f1 where acq: "acquire env p a ep c f = (Inr (ep1, c1), f1)"
    using acquire_succeeds [OF sign url] by blast
  obtain tok e where lg: "clientLogin env (trace f1) ep1 c1 = (tok, Some e)"
    using rej by (metis option.exhaust prod.collapse)
  have i1: "interactive f1"
    using int acquire_interactive_mono [OF acq] acquire_prompts [OF acq] by blast
  show ?thesis
    using a i1 acquire_flags [OF acq] acquire_loginAttempts [OF acq]
    by (simp add: loop_step_reject [OF acq lg] rejectedAfter_def emit_fields)
qed

lemma retry_step:
  assumes rej: "\<forall>h ep c. snd (clientLogin env h ep c) \<noteq> None"
      and sign: "ClientMethod p = methodServiceCredential \<longrightarrow>
                   (\<forall>t. \<exists>s. SignedString env t (privateKey (flags f)) = Inr s)"
      and url: "ClientMethod p = methodBrowserToken \<longrightarrow>
                   (\<exists>u. resolveURL env (StartFlowURL (Config p)) = Inr u)"
      and int: "interactive f \<or> prompts p (flags f)"
      and a: "a < 3" "b = a + 1" "m = n + 1"
      and nxt: "\<And>ep1 c1 g. flags g = flags f \<Longrightarrow> interactive g
                  \<Longrightarrow> rejectedAfter n g (triggerLoop env p b ep1 c1 g)"
  shows "rejectedAfter m f (triggerLoop env p a ep c f)"
proof -
  obtain ep1 c1 f1 where acq: "acquire env p a ep c f = (Inr (ep1, c1), f1)"
    using acquire_succeeds [OF sign url] by blast
  obtain tok e where lg: "clientLogin env (trace f1) ep1 c1 = (tok, Some e)"
    using rej by (metis option.exhaust prod.collapse)
  have i1: "interactive f1"
    using int acquire_interactive_mono [OF acq] acquire_prompts [OF acq] by blast
  let ?g = "emit (LoginCall ep1 c1 (tok, Some e)) f1"
  have "rejectedAfter n ?g (triggerLoop env p b ep1 c1 ?g)"
    using i1 acquire_flags [OF acq] by (intro nxt) (simp_all add: emit_fields)
  then show ?thesis
    using a i1 acquire_flags [OF acq] acquire_loginAttempts [OF acq]
    by (auto simp: loop_step_reject [OF acq lg] rejectedAfter_def emit_fields
             split: prod.splits)
qed

lemma retry_three:
  assumes rej: "\<forall>h ep c. snd (clientLogin env h ep c) \<noteq> None"
      and sign: "ClientMethod p = methodServiceCredential \<longrightarrow>
                   (\<forall>t. \<exists>s. SignedString env t (privateKey (flags f)) = Inr s)"
      and url: "ClientMethod p = methodBrowserToken \<longrightarrow>
                   (\<exists>u. resolveURL env (StartFlowURL (Config p)) = Inr u)"
      and int: "interactive f \<or> prompts p (flags f)"
  shows "rejectedAfter 3 f (triggerLoop env p 1 ep c f)"
proof -
  have three: "rejectedAfter 1 g (triggerLoop env p 3 ep1 c1 g)"
    if "flags g = flags f" "interactive g" for ep1 c1 g
    using that rej sign url by (intro retry_last) simp_all
  have two: "rejectedAfter 2 g (triggerLoop env p 2 ep1 c1 g)"
    if g: "flags g = flags f" "interactive g" for ep1 c1 g
  proof (rule retry_step [OF rej, where a = 2 and b = 3 and n = 1])
    show "rejectedAfter 1 g' (triggerLoop env p 3 ep2 c2 g')"
      if "flags g' = flags g" "interactive g'" for ep2 c2 g'
      using three [of g' ep2 c2] that g by simp
  qed (use g sign url in simp_all)
  show ?thesis
  proof (rule retry_step [OF rej sign url int, where a = 1 and b = 2 and n = 2])
    show "rejectedAfter 2 g (triggerLoop env p 2 ep1 c1 g)"
      if "flags g = flags f" "interactive g" for ep1 c1 g
      using two [of g ep1 c1] that by simp
  qed simp_all
qed

subsection \<open>A pass that cannot obtain its credentials\<close>

lemma uid_flags: "flags (snd (uid env f)) = flags f"
  by (simp add: uid_def emit_def Let_def)

lemma uid_loginAttempts: "loginAttempts (trace (snd (uid env f))) = loginAttempts (trace f)"
  by (simp add: uid_def emit_def Let_def loginAttempts_def isLoginCall_def)

lemma service_acquire_abort:
  assumes "ClientMethod p = methodServiceCredential"
      and "serviceToken env (fst (uid env f)) (snd (uid env f)) = Inl e"
  shows "acquire env p a ep c f = (Inl e, snd (uid env f))"
  using assms by (cases "uid env f") (simp add: acquire_def)

lemma acquire_error:
  assumes "acquire env p a ep c f = (Inl e, f1)"
  shows "acquisitionError env p (flags f) e"
proof (cases "ClientMethod p")
  case methodServiceCredential
  then have "serviceToken env (fst (uid env f)) (snd (uid env f)) = Inl e"
    using assms by (auto simp: acquire_def split: prod.splits sum.splits)
  then have "\<exists>t. SignedString env t (privateKey (flags f)) = Inl e"
    unfolding serviceToken_def uid_flags by blast
  with methodServiceCredential show ?thesis by simp
next
  case methodBrowserToken
  then have "resolveURL env (StartFlowURL (Config p)) = Inl e"
    using assms
    by (auto simp: acquire_def openBrowser_def Let_def
             split: if_splits sum.splits option.splits prod.splits)
  with methodBrowserToken show ?thesis by simp
qed (use assms in \<open>auto simp: acquire_def split: prod.splits\<close>)

lemma total_last:
  assumes rej: "\<forall>h ep c. snd (clientLogin env h ep c) \<noteq> None"
      and int: "interactive f \<or> prompts p (flags f)"
      and a: "3 \<le> a"
  shows "rejectedAfter 1 f (triggerLoop env p a ep c f)
       \<or> abortedWithin 1 env p f (triggerLoop env p a ep c f)"
proof -
  obtain r f1 where acq: "acquire env p a ep c f = (r, f1)"
    by (cases "acquire env p a ep c f")
  show ?thesis
  proof (cases r)
    case (Inl e)
    then show ?thesis
      using acq acquire_error [of env p a ep c f e f1] acquire_loginAttempts [OF acq]
      by (simp add: loop_step_fail)
  next
    case (Inr x)
    obtain ep1 c1 where x: "x = (ep1, c1)"
      by (cases x)
    have acq': "acquire env p a ep c f = (Inr (ep1, c1), f1)"
      using acq Inr x by simp
    obtain tok e where lg: "clientLogin env (trace f1) ep1 c1 = (tok, Some e)"
      using rej by (metis option.exhaust prod.collapse)
    have i1: "interactive f1"
      using int acquire_interactive_mono [OF acq'] acquire_prompts [OF acq'] by blast
    have "rejectedAfter 1 f (triggerLoop env p a ep c f)"
      using a i1 acquire_flags [OF acq'] acquire_loginAttempts [OF acq']
      by (simp add: loop_step_reject [OF acq' lg] rejectedAfter_def emit_fields)
    then show ?thesis ..
  qed
qed

lemma total_step:
  assumes rej: "\<forall>h ep c. snd (clientLogin env h ep c) \<noteq> None"
      and int: "interactive f \<or> prompts p (flags f)"
      and a: "a < 3" "b = a + 1" "m = n + 1"
      and nxt: "\<And>ep1 c1 g. flags g = flags f \<Longrightarrow> interactive g
                  \<Longrightarrow> rejectedAfter n g (triggerLoop env p b ep1 c1 g)
                      \<or> abortedWithin n env p g (triggerLoop env p b ep1 c1 g)"
  shows "rejectedAfter m f (triggerLoop env p a ep c f)
       \<or> abortedWithin m env p f (triggerLoop env p a ep c f)"
proof -
  obtain r f1 where acq: "acquire env p a ep c f = (r, f1)"
    by (cases "acquire env p a ep c f")
  show ?thesis
  proof (cases r)
    case (Inl e)
    then show ?thesis
      using acq acquire_error [of env p a ep c f e f1] acquire_loginAttempts [OF acq] a
      by (simp add: loop_step_fail)
  next
    case (Inr x)
    obtain ep1 c1 where x: "x = (ep1, c1)"
      by (cases x)
    have acq': "acquire env p a ep c f = (Inr (ep1, c1), f1)"
      using acq Inr x by simp
    obtain tok e where lg: "clientLogin env (trace f1) ep1 c1 = (tok, Some e)"
      using rej by (metis option.exhaust prod.collapse)
    have i1: "interactive f1"
      using int acquire_interactive_mono [OF acq'] acquire_prompts [OF acq'] by blast
    let ?g = "emit (LoginCall ep1 c1 (tok, Some e)) f1"
    have fg: "flags ?g = flags f" "interactive ?g"
        "loginAttempts (trace ?g) = loginAttempts (trace f) + 1"
      using i1 acquire_flags [OF acq'] acquire_loginAttempts [OF acq']
      by (simp_all add: emit_fields)
    have step: "triggerLoop env p a ep c f = triggerLoop env p b ep1 c1 ?g"
      using a i1 by (simp add: loop_step_reject [OF acq' lg])
    from nxt [OF fg(1,2), of ep1 c1] show ?thesis
    proof
      assume "rejectedAfter n ?g (triggerLoop env p b ep1 c1 ?g)"
      then have "rejectedAfter m f (triggerLoop env p a ep c f)"
        using fg a unfolding step by (auto simp: rejectedAfter_def split: prod.splits)
      then show ?thesis ..
    next
      assume "abortedWithin n env p ?g (triggerLoop env p b ep1 c1 ?g)"
      then have "abortedWithin m env p f (triggerLoop env p a ep c f)"
        using fg a unfolding step by auto
      then show ?thesis ..
    qed
  qed
qed

lemma total_three:
  assumes rej: "\<forall>h ep c. snd (clientLogin env h ep c) \<noteq> None"
      and int: "interactive f \<or> prompts p (flags f)"
  shows "rejectedAfter 3 f (triggerLoop env p 1 ep c f)
       \<or> abortedWithin 3 env p f (triggerLoop env p 1 ep c f)"
proof -
  have three: "rejectedAfter 1 g (triggerLoop env p 3 ep1 c1 g)
             \<or> abortedWithin 1 env p g (triggerLoop env p 3 ep1 c1 g)"
    if "interactive g" for ep1 c1 g
    using that rej by (intro total_last) simp_all
  have two: "rejectedAfter 2 g (triggerLoop env p 2 ep1 c1 g)
           \<or> abortedWithin 2 env p g (triggerLoop env p 2 ep1 c1 g)"
    if g: "interactive g" for ep1 c1 g
  proof (rule total_step [OF rej, where a = 2 and b = 3 and n = 1])
    show "rejectedAfter 1 g' (triggerLoop env p 3 ep2 c2 g')
        \<or> abortedWithin 1 env p g' (triggerLoop env p 3 ep2 c2 g')"
      if "flags g' = flags g" "interactive g'" for ep2 c2 g'
      using three [of g' ep2 c2] that by simp
  qed (use g in simp_all)
  show ?thesis
  proof (rule total_step [OF rej int, where a = 1 and b = 2 and n = 2])
    show "rejectedAfter 2 g (triggerLoop env p 2 ep1 c1 g)
        \<or> abortedWithin 2 env p g (triggerLoop env p 2 ep1 c1 g)"
      if "flags g = flags f" "interactive g" for ep1 c1 g
      using two [of g ep1 c1] that by simp
  qed simp_all
qed

subsection \<open>The passes of the browser method\<close>

lemma browser_round:
  assumes acq: "acquire env p a ep c f =
           (Inr (ep, c\<lparr>Token := t\<rparr>), emit (PromptInput tokenPrompt) (f0\<lparr>interactive := True\<rparr>))"
      and ab: "b = a + 1" "m = n + 1"
      and nxt: "\<And>g c1. browserRounds n ep c1 g (triggerLoop env p b ep c1 g)"
  shows "browserRounds m ep c f0 (triggerLoop env p a ep c f)"
proof -
  let ?f1 = "emit (PromptInput tokenPrompt) (f0\<lparr>interactive := True\<rparr>)"
  let ?c1 = "c\<lparr>Token := t\<rparr>"
  obtain tok err where lg: "clientLogin env (trace ?f1) ep ?c1 = (tok, err)"
    by (cases "clientLogin env (trace ?f1) ep ?c1")
  let ?g = "emit (LoginCall ep ?c1 (tok, err)) ?f1"
  have tg: "trace ?g = trace f0 @ tokenRound ep c (t, (tok, err))"
    by (simp add: emit_def tokenRound_def)
  show ?thesis
  proof (cases "err = None \<or> 3 \<le> a")
    case True
    then have "triggerLoop env p a ep c f = ((tok, err), ?g)"
      using acq lg by (subst triggerLoop.simps) (auto simp: emit_def)
    then have "trace (snd (triggerLoop env p a ep c f))
                 = trace f0 @ concat (map (tokenRound ep c) [(t, (tok, err))])"
        and "fst (triggerLoop env p a ep c f) = snd (last [(t, (tok, err))])"
      using tg by simp_all
    then show ?thesis
      using ab
      by (intro exI [of _ "[(t, (tok, err))]"]) simp
  next
    case False
    then have step: "triggerLoop env p a ep c f = triggerLoop env p b ep ?c1 ?g"
      using acq lg ab by (subst triggerLoop.simps) (auto simp: emit_def)
    obtain rounds where r: "1 \<le> length rounds" "length rounds \<le> n"
        "trace (snd (triggerLoop env p b ep ?c1 ?g))
           = trace ?g @ concat (map (tokenRound ep ?c1) rounds)"
        "fst (triggerLoop env p b ep ?c1 ?g) = snd (last rounds)"
      using nxt [of ?c1 ?g] by blast
    have ne: "rounds \<noteq> []"
      using r(1) by auto
    have "trace (snd (triggerLoop env p a ep c f))
        = trace f0 @ concat (map (tokenRound ep c) ((t, (tok, err)) # rounds))"
      using step r(3) tg by simp
    moreover have "fst (triggerLoop env p a ep c f) = snd (last ((t, (tok, err)) # rounds))"
      using step r(4) ne by simp
    ultimately show ?thesis
      using r(1,2) ab
      by (intro exI [of _ "(t, (tok, err)) # rounds"]) simp
  qed
qed

lemma browser_rounds_last:
  assumes "ClientMethod p = methodBrowserToken"
  shows "browserRounds 1 ep c f (triggerLoop env p 3 ep c f)"
proof -
  let ?t = "promptInput env (trace f) tokenPrompt"
  let ?f1 = "emit (PromptInput tokenPrompt) (f\<lparr>interactive := True\<rparr>)"
  obtain tok err where lg: "clientLogin env (trace ?f1) ep (c\<lparr>Token := ?t\<rparr>) = (tok, err)"
    by (cases "clientLogin env (trace ?f1) ep (c\<lparr>Token := ?t\<rparr>)")
  have "triggerLoop env p 3 ep c f
          = ((tok, err), emit (LoginCall ep (c\<lparr>Token := ?t\<rparr>) (tok, err)) ?f1)"
    using browser_acquire_later [OF assms, of 3 env ep c f] lg
    by (subst triggerLoop.simps) (simp add: emit_def)
  then have "trace (snd (triggerLoop env p 3 ep c f))
               = trace f @ concat (map (tokenRound ep c) [(?t, (tok, err))])"
      and "fst (triggerLoop env p 3 ep c f) = snd (last [(?t, (tok, err))])"
    by (simp_all add: emit_def tokenRound_def)
  then show ?thesis
    by (intro exI [of _ "[(?t, (tok, err))]"]) simp
qed

lemma browser_rounds_second:
  assumes "ClientMethod p = methodBrowserToken"
  shows "browserRounds 2 ep c f (triggerLoop env p 2 ep c f)"
proof (rule browser_round [where b = 3 and n = 1])
  show "acquire env p 2 ep c f =
          (Inr (ep, c\<lparr>Token := promptInput env (trace f) tokenPrompt\<rparr>),
           emit (PromptInput tokenPrompt) (f\<lparr>interactive := True\<rparr>))"
    using browser_acquire_later [OF assms, of 2] by simp
  show "browserRounds 1 ep c1 g (triggerLoop env p 3 ep c1 g)" for g c1
    by (rule browser_rounds_last [OF assms])
qed simp_all

lemma browser_rounds_first:
  assumes m: "ClientMethod p = methodBrowserToken"
      and ob: "openBrowser env (StartFlowURL (Config p)) f = (None, f0)"
  shows "browserRounds 3 ep c f0 (triggerLoop env p 1 ep c f)"
proof (rule browser_round [where b = 2 and n = 2])
  show "acquire env p 1 ep c f =
          (Inr (ep, c\<lparr>Token := promptInput env (trace f0) tokenPrompt\<rparr>),
           emit (PromptInput tokenPrompt) (f0\<lparr>interactive := True\<rparr>))"
    by (rule browser_acquire_first [OF m ob])
  show "browserRounds 2 ep c1 g (triggerLoop env p 2 ep c1 g)" for g c1
    by (rule browser_rounds_second [OF m])
qed simp_all

subsection \<open>Retrying a rejected login\<close>

text \<open>
  C3, as amended. For every flow whose interactivity flag is true (on entry, or
  because the first pass asks the user for a value) and whose login endpoint rejects
  every submission, \<open>triggerMethod\<close> either makes exactly three login calls and
  returns the failure of the third, which is the last event of the run, or returns,
  after fewer than three login calls, the error of a pass that could not obtain its
  credentials: the signer refused the service token, or the start-flow URL of a
  browser-token provider could not be resolved. The first case holds whenever the
  signer accepts the key of a service-credential flow and the URL of a browser-token
  flow is absolute or is resolved. A signing or URL-resolution error of the first
  pass is returned at once, with no login call.
\<close>

theorem retry_bound:
  assumes "\<forall>h ep c. snd (clientLogin env h ep c) \<noteq> None"
      and "interactive f \<or> prompts provider (flags f)"
  shows "((ClientMethod provider = methodServiceCredential \<longrightarrow>
             (\<forall>t. \<exists>s. SignedString env t (privateKey (flags f)) = Inr s))
          \<and> (ClientMethod provider = methodBrowserToken \<longrightarrow>
             (\<exists>u. resolveURL env (StartFlowURL (Config provider)) = Inr u))
          \<longrightarrow> loginAttempts (trace (snd (triggerMethod env provider f)))
                = loginAttempts (trace f) + 3
              \<and> snd (fst (triggerMethod env provider f)) \<noteq> None
              \<and> lastLogin (trace (snd (triggerMethod env provider f)))
                  = Some (fst (triggerMethod env provider f))
              \<and> interactive (snd (triggerMethod env provider f)))
       \<and> ((loginAttempts (trace (snd (triggerMethod env provider f)))
                = loginAttempts (trace f) + 3
              \<and> snd (fst (triggerMethod env provider f)) \<noteq> None
              \<and> lastLogin (trace (snd (triggerMethod env provider f)))
                  = Some (fst (triggerMethod env provider f)))
           \<or> (\<exists>e. fst (triggerMethod env provider f) = ([], Some e)
                 \<and> loginAttempts (trace (snd (triggerMethod env provider f)))
                     < loginAttempts (trace f) + 3
                 \<and> ((ClientMethod provider = methodServiceCredential
                       \<and> (\<exists>t. SignedString env t (privateKey (flags f)) = Inl e))
                    \<or> (ClientMethod provider = methodBrowserToken
                       \<and> resolveURL env (StartFlowURL (Config provider)) = Inl e))))
       \<and> (\<forall>e. ClientMethod provider = methodServiceCredential
               \<and> serviceToken env (fst (uid env f)) (snd (uid env f)) = Inl e
             \<longrightarrow> fst (triggerMethod env provider f) = ([], Some e)
                 \<and> loginAttempts (trace (snd (triggerMethod env provider f)))
                     = loginAttempts (trace f))
       \<and> (\<forall>e. ClientMethod provider = methodBrowserToken
               \<and> resolveURL env (StartFlowURL (Config provider)) = Inl e
             \<longrightarrow> triggerMethod env provider f = (([], Some e), f))"
proof (intro conjI allI impI)
  assume ok: "(ClientMethod provider = methodServiceCredential \<longrightarrow>
             (\<forall>t. \<exists>s. SignedString env t (privateKey (flags f)) = Inr s))
          \<and> (ClientMethod provider = methodBrowserToken \<longrightarrow>
             (\<exists>u. resolveURL env (StartFlowURL (Config provider)) = Inr u))"
  have r3: "rejectedAfter 3 f (triggerLoop env provider 1 [] noCredentials f)"
    using ok assms by (intro retry_three) simp_all
  show "loginAttempts (trace (snd (triggerMethod env provider f))) = loginAttempts (trace f) + 3"
    using r3 by (auto simp: rejectedAfter_def triggerMethod_def noCredentials_def split: prod.splits)
  show "snd (fst (triggerMethod env provider f)) \<noteq> None"
    using r3 by (auto simp: rejectedAfter_def triggerMethod_def noCredentials_def split: prod.splits)
  show "lastLogin (trace (snd (triggerMethod env provider f)))
          = Some (fst (triggerMethod env provider f))"
    using r3 by (auto simp: rejectedAfter_def triggerMethod_def noCredentials_def split: prod.splits)
  show "interactive (snd (triggerMethod env provider f))"
    using r3 by (auto simp: rejectedAfter_def triggerMethod_def noCredentials_def split: prod.splits)
next
  have R: "triggerMethod env provider f = triggerLoop env provider 1 [] noCredentials f"
    by (simp add: triggerMethod_def noCredentials_def)
  from total_three [OF assms, of "[]" noCredentials]
  show "(loginAttempts (trace (snd (triggerMethod env provider f)))
                = loginAttempts (trace f) + 3
              \<and> snd (fst (triggerMethod env provider f)) \<noteq> None
              \<and> lastLogin (trace (snd (triggerMethod env provider f)))
                  = Some (fst (triggerMethod env provider f)))
           \<or> (\<exists>e. fst (triggerMethod env provider f) = ([], Some e)
                 \<and> loginAttempts (trace (snd (triggerMethod env provider f)))
                     < loginAttempts (trace f) + 3
                 \<and> ((ClientMethod provider = methodServiceCredential
                       \<and> (\<exists>t. SignedString env t (privateKey (flags f)) = Inl e))
                    \<or> (ClientMethod provider = methodBrowserToken
                       \<and> resolveURL env (StartFlowURL (Config provider)) = Inl e)))"
  proof
    assume "rejectedAfter 3 f (triggerLoop env provider 1 [] noCredentials f)"
    then have "loginAttempts (trace (snd (triggerMethod env provider f)))
                = loginAttempts (trace f) + 3
              \<and> snd (fst (triggerMethod env provider f)) \<noteq> None
              \<and> lastLogin (trace (snd (triggerMethod env provider f)))
                  = Some (fst (triggerMethod env provider f))"
      unfolding R by (auto simp: rejectedAfter_def split: prod.splits)
    then show ?thesis ..
  next
    assume "abortedWithin 3 env provider f (triggerLoop env provider 1 [] noCredentials f)"
    then show ?thesis
      unfolding R by blast
  qed
next
  fix e
  assume s: "ClientMethod provider = methodServiceCredential
               \<and> serviceToken env (fst (uid env f)) (snd (uid env f)) = Inl e"
  then have "acquire env provider 1 [] noCredentials f = (Inl e, snd (uid env f))"
    by (intro service_acquire_abort) simp_all
  then have "triggerMethod env provider f = (([], Some e), snd (uid env f))"
    by (simp add: loop_step_fail triggerMethod_def noCredentials_def)
  then show "fst (triggerMethod env provider f) = ([], Some e)"
      and "loginAttempts (trace (snd (triggerMethod env provider f))) = loginAttempts (trace f)"
    by (simp_all add: uid_loginAttempts)
next
  fix e
  assume b: "ClientMethod provider = methodBrowserToken
               \<and> resolveURL env (StartFlowURL (Config provider)) = Inl e"
  then have "acquire env provider 1 [] noCredentials f = (Inl e, f)"
    by (intro browser_acquire_abort) simp_all
  then show "triggerMethod env provider f = (([], Some e), f)"
    by (simp add: loop_step_fail triggerMethod_def noCredentials_def)
qed

text \<open>
  On \<open>env0\<close> the credential provider \<open>p1\<close> with no flags asks for user name and
  password three times and returns the third rejection; the service provider \<open>p3\<close>
  with the empty key returns the error of the signer with no login call.
\<close>

theorem retry_bound_witness:
  "prompts p1 (flags flow0)
   \<and> snd (clientLogin env0 [] [] noCredentials) = Some (Err ''401 Unauthorized'')
   \<and> loginAttempts (trace (snd (triggerMethod env0 p1 flow0))) = 3
   \<and> fst (triggerMethod env0 p1 flow0) = ([], Some (Err ''401 Unauthorized''))
   \<and> lastLogin (trace (snd (triggerMethod env0 p1 flow0)))
       = Some ([], Some (Err ''401 Unauthorized''))
   \<and> prompts p3 (flags flow0)
   \<and> serviceToken env0 (fst (uid env0 flow0)) (snd (uid env0 flow0)) = Inl (Err ''key is invalid'')
   \<and> fst (triggerMethod env0 p3 flow0) = ([], Some (Err ''key is invalid''))
   \<and> loginAttempts (trace (snd (triggerMethod env0 p3 flow0))) = 0"
proof -
  have h1: "\<forall>h ep c. snd (clientLogin env0 h ep c) \<noteq> None"
    by (simp add: env0_def)
  have pr: "prompts p1 (flags flow0)" "prompts p3 (flags flow0)"
    by (simp_all add: prompts_def p1_def p3_def flow0_def noFlags_def)
  then have h2: "interactive flow0 \<or> prompts p1 (flags flow0)"
      and h2': "interactive flow0 \<or> prompts p3 (flags flow0)"
    by simp_all
  have ok: "(ClientMethod p1 = methodServiceCredential \<longrightarrow>
             (\<forall>t. \<exists>s. SignedString env0 t (privateKey (flags flow0)) = Inr s))
          \<and> (ClientMethod p1 = methodBrowserToken \<longrightarrow>
             (\<exists>u. resolveURL env0 (StartFlowURL (Config p1)) = Inr u))"
    by (simp add: p1_def)
  have sg: "ClientMethod p3 = methodServiceCredential
          \<and> serviceToken env0 (fst (uid env0 flow0)) (snd (uid env0 flow0))
              = Inl (Err ''key is invalid'')"
    by (simp add: p3_def serviceToken_def uid_def env0_def flow0_def noFlags_def emit_def)
  have t0: "loginAttempts (trace flow0) = 0"
    by (simp add: flow0_def loginAttempts_def)
  have ans: "snd (clientLogin env0 [] [] noCredentials) = Some (Err ''401 Unauthorized'')"
    by (simp add: env0_def)
  have fst_r: "fst (triggerMethod env0 p1 flow0) = ([], Some (Err ''401 Unauthorized''))"
    by (simp add: triggerMethod_def triggerLoop.simps acquire_def uid_def password'_def
                  env0_def flow0_def noFlags_def p1_def emit_def)
  have a: "loginAttempts (trace (snd (triggerMethod env0 p1 flow0))) = loginAttempts (trace flow0) + 3
         \<and> lastLogin (trace (snd (triggerMethod env0 p1 flow0)))
             = Some (fst (triggerMethod env0 p1 flow0))"
    using retry_bound [OF h1 h2] ok by blast
  have b: "fst (triggerMethod env0 p3 flow0) = ([], Some (Err ''key is invalid''))
         \<and> loginAttempts (trace (snd (triggerMethod env0 p3 flow0))) = loginAttempts (trace flow0)"
    using retry_bound [OF h1 h2'] sg by blast
  show ?thesis
    using a b pr sg t0 ans fst_r by simp
qed

text \<open>
  The statement as the specification has it fails. The service provider \<open>p3\<close> with
  no user name flag asks for the user name, which sets the interactivity flag; the
  signer then refuses the key, and the run returns that error without a login call,
  although the endpoint of \<open>env0\<close> rejects every submission.
\<close>

theorem retry_bound_counterexample:
  "ClientMethod p3 = methodServiceCredential
   \<and> snd (clientLogin env0 [] [] noCredentials) = Some (Err ''401 Unauthorized'')
   \<and> interactive (snd (triggerMethod env0 p3 flow0))
   \<and> loginAttempts (trace (snd (triggerMethod env0 p3 flow0))) = 0
   \<and> fst (triggerMethod env0 p3 flow0) = ([], Some (Err ''key is invalid''))"
  by (simp add: triggerMethod_def triggerLoop.simps acquire_def uid_def serviceToken_def
                env0_def flow0_def noFlags_def p3_def emit_def loginAttempts_def
                isLoginCall_def)

text \<open>
  C4, as amended. For every fully flag-driven flow (the interactivity flag is false
  on entry and the first pass asks the user for nothing: every credential value comes
  from the flags) whose login endpoint rejects the submission, \<open>triggerMethod\<close> makes
  exactly one login call and returns its failure at once, and the flag is never set,
  provided that the token of a service-credential flow can be signed. If it cannot,
  the error of the signer is returned at once and there is no login call.
\<close>

theorem flag_driven_single_attempt:
  assumes "\<not> interactive f"
      and "\<not> prompts provider (flags f)"
      and "\<forall>ep c. snd (clientLogin env (trace f) ep c) \<noteq> None"
  shows "((ClientMethod provider = methodServiceCredential \<longrightarrow>
             (\<exists>s. serviceToken env (username (flags f)) f = Inr s))
          \<longrightarrow> loginAttempts (trace (snd (triggerMethod env provider f)))
                = loginAttempts (trace f) + 1
              \<and> snd (fst (triggerMethod env provider f)) \<noteq> None
              \<and> lastLogin (trace (snd (triggerMethod env provider f)))
                  = Some (fst (triggerMethod env provider f))
              \<and> \<not> interactive (snd (triggerMethod env provider f)))
       \<and> (\<forall>e. ClientMethod provider = methodServiceCredential
               \<and> serviceToken env (username (flags f)) f = Inl e
             \<longrightarrow> triggerMethod env provider f = (([], Some e), f))"
proof (intro conjI allI impI)
  fix e
  assume s: "ClientMethod provider = methodServiceCredential
               \<and> serviceToken env (username (flags f)) f = Inl e"
  then have "username (flags f) \<noteq> []"
    using assms(2) by (simp add: prompts_def)
  then have u: "uid env f = (username (flags f), f)"
    by (simp add: uid_def)
  have "acquire env provider 1 [] noCredentials f = (Inl e, snd (uid env f))"
    using s u by (intro service_acquire_abort) simp_all
  then show "triggerMethod env provider f = (([], Some e), f)"
    using u by (simp add: loop_step_fail triggerMethod_def noCredentials_def)
next
  assume sg: "ClientMethod provider = methodServiceCredential \<longrightarrow>
             (\<exists>s. serviceToken env (username (flags f)) f = Inr s)"
  have "\<exists>ep1 c1. acquire env provider 1 [] noCredentials f = (Inr (ep1, c1), f)"
    using assms(2) sg
    by (cases "ClientMethod provider") (auto simp: acquire_def uid_def password'_def prompts_def)
  then obtain ep1 c1 where acq: "acquire env provider 1 [] noCredentials f = (Inr (ep1, c1), f)"
    by blast
  obtain tok err where lg: "clientLogin env (trace f) ep1 c1 = (tok, err)"
    by (cases "clientLogin env (trace f) ep1 c1")
  have ne: "err \<noteq> None"
    using assms(3) lg by (metis snd_conv)
  have R: "triggerMethod env provider f = ((tok, err), emit (LoginCall ep1 c1 (tok, err)) f)"
    using single_attempt [OF acq assms(1) lg]
    by (simp add: triggerMethod_def noCredentials_def)
  show "loginAttempts (trace (snd (triggerMethod env provider f))) = loginAttempts (trace f) + 1"
    by (simp add: R emit_fields)
  show "snd (fst (triggerMethod env provider f)) \<noteq> None"
    using ne by (simp add: R)
  show "lastLogin (trace (snd (triggerMethod env provider f)))
          = Some (fst (triggerMethod env provider f))"
    by (simp add: R emit_fields)
  show "\<not> interactive (snd (triggerMethod env provider f))"
    using assms(1) by (simp add: R emit_fields)
qed

text \<open>
  On \<open>env0\<close> with user name, password and key given as flags, the credential
  provider \<open>p1\<close> and the service provider \<open>p3\<close> each submit once; with the empty
  key of \<open>flowNoKey\<close> the service provider returns the error of the signer.
\<close>

theorem flag_driven_single_attempt_witness:
  "prompts p1 (flags flowFlags) = False
   \<and> interactive flowFlags = False
   \<and> loginAttempts (trace flowFlags) = 0
   \<and> loginAttempts (trace (snd (triggerMethod env0 p1 flowFlags))) = 1
   \<and> fst (triggerMethod env0 p1 flowFlags) = ([], Some (Err ''401 Unauthorized''))
   \<and> interactive (snd (triggerMethod env0 p1 flowFlags)) = False
   \<and> prompts p3 (flags flowFlags) = False
   \<and> serviceToken env0 (username (flags flowFlags)) flowFlags = Inr ''signed''
   \<and> loginAttempts (trace (snd (triggerMethod env0 p3 flowFlags))) = 1
   \<and> prompts p3 (flags flowNoKey) = False
   \<and> serviceToken env0 (username (flags flowNoKey)) flowNoKey = Inl (Err ''key is invalid'')
   \<and> triggerMethod env0 p3 flowNoKey = (([], Some (Err ''key is invalid'')), flowNoKey)"
proof -
  have h1: "\<not> interactive flowFlags" "\<not> interactive flowNoKey"
    by (simp_all add: flowFlags_def flowNoKey_def)
  have h2: "\<not> prompts p1 (flags flowFlags)" "\<not> prompts p3 (flags flowFlags)"
      "\<not> prompts p3 (flags flowNoKey)"
    by (simp_all add: prompts_def p1_def p3_def flowFlags_def flowNoKey_def)
  have h3: "\<forall>ep c. snd (clientLogin env0 (trace flowFlags) ep c) \<noteq> None"
      "\<forall>ep c. snd (clientLogin env0 (trace flowNoKey) ep c) \<noteq> None"
    by (simp_all add: env0_def)
  have sg: "serviceToken env0 (username (flags flowFlags)) flowFlags = Inr ''signed''"
    by (simp add: serviceToken_def env0_def flowFlags_def)
  have ok1: "ClientMethod p1 = methodServiceCredential \<longrightarrow>
             (\<exists>s. serviceToken env0 (username (flags flowFlags)) flowFlags = Inr s)"
      and ok3: "ClientMethod p3 = methodServiceCredential \<longrightarrow>
             (\<exists>s. serviceToken env0 (username (flags flowFlags)) flowFlags = Inr s)"
    using sg by simp_all
  have bad: "ClientMethod p3 = methodServiceCredential
           \<and> serviceToken env0 (username (flags flowNoKey)) flowNoKey = Inl (Err ''key is invalid'')"
    by (simp add: p3_def serviceToken_def env0_def flowNoKey_def)
  have t0: "loginAttempts (trace flowFlags) = 0"
    by (simp add: flowFlags_def loginAttempts_def)
  have fst_r: "fst (triggerMethod env0 p1 flowFlags) = ([], Some (Err ''401 Unauthorized''))"
    by (simp add: triggerMethod_def triggerLoop.simps acquire_def uid_def password'_def
                  env0_def flowFlags_def p1_def emit_def)
  have a: "loginAttempts (trace (snd (triggerMethod env0 p1 flowFlags)))
             = loginAttempts (trace flowFlags) + 1
         \<and> \<not> interactive (snd (triggerMethod env0 p1 flowFlags))"
    using flag_driven_single_attempt [OF h1(1) h2(1) h3(1)] ok1 by blast
  have b: "loginAttempts (trace (snd (triggerMethod env0 p3 flowFlags)))
             = loginAttempts (trace flowFlags) + 1"
    using flag_driven_single_attempt [OF h1(1) h2(2) h3(1)] ok3 by blast
  have c: "triggerMethod env0 p3 flowNoKey = (([], Some (Err ''key is invalid'')), flowNoKey)"
    using flag_driven_single_attempt [OF h1(2) h2(3) h3(2)] bad by blast
  show ?thesis
    using a b c h1 h2 sg bad t0 fst_r by simp
qed

text \<open>
  The statement as the specification has it fails. With user name and password
  given as flags and the empty key, the service provider \<open>p3\<close> prompts for nothing,
  the signer refuses the key, and the run returns that error with no login call,
  although the endpoint of \<open>env0\<close> rejects every submission.
\<close>

theorem flag_driven_single_attempt_counterexample:
  "ClientMethod p3 = methodServiceCredential
   \<and> interactive flowNoKey = False
   \<and> prompts p3 (flags flowNoKey) = False
   \<and> snd (clientLogin env0 [] [] noCredentials) = Some (Err ''401 Unauthorized'')
   \<and> interactive (snd (triggerMethod env0 p3 flowNoKey)) = False
   \<and> loginAttempts (trace (snd (triggerMethod env0 p3 flowNoKey))) = 0
   \<and> fst (triggerMethod env0 p3 flowNoKey) = ([], Some (Err ''key is invalid''))"
  by (simp add: triggerMethod_def triggerLoop.simps acquire_def uid_def serviceToken_def
                env0_def flowNoKey_def p3_def prompts_def loginAttempts_def)

subsection \<open>The browser method\<close>




text \<open>
  C8, as amended. In a browser-token flow whose start-flow URL is absolute or is
  resolved by the HTTP client, the browser is sent to the resolved URL in the first
  pass, before the first token prompt, and never again: what follows the events of
  \<open>openBrowser\<close> is one to three passes, each of them the token prompt and the login
  call with the token typed. When the resolution fails the flow returns that error in
  the first pass, with the browser not opened and no token prompt.
\<close>

theorem browser_opened_first_attempt_only:
  assumes "ClientMethod provider = methodBrowserToken"
  shows "case resolveURL env (StartFlowURL (Config provider)) of
           Inl e \<Rightarrow> triggerMethod env provider f = (([], Some e), f)
         | Inr url \<Rightarrow>
             (\<exists>rounds. 1 \<le> length rounds \<and> length rounds \<le> 3
                \<and> trace (snd (triggerMethod env provider f)) =
                    trace (snd (openBrowser env (StartFlowURL (Config provider)) f))
                      @ concat (map (tokenRound [] noCredentials) rounds)
                \<and> loginAttempts (trace (snd (triggerMethod env provider f)))
                    = loginAttempts (trace f) + length rounds)
             \<and> openedURLs (trace (snd (openBrowser env (StartFlowURL (Config provider)) f)))
                 = openedURLs (trace f) @ [url]
             \<and> openedURLs (trace (snd (triggerMethod env provider f)))
                 = openedURLs (trace f) @ [url]"
proof (cases "resolveURL env (StartFlowURL (Config provider))")
  case (Inl e)
  then show ?thesis
    using loop_step_fail [OF browser_acquire_abort [OF assms Inl]]
    by (simp add: triggerMethod_def)
next
  case (Inr url)
  let ?u = "StartFlowURL (Config provider)"
  let ?f0 = "snd (openBrowser env ?u f)"
  let ?R = "triggerMethod env provider f"
  have ob: "openBrowser env ?u f = (None, ?f0)"
    by (simp add: openBrowser_resolved [OF Inr])
  have l0: "loginAttempts (trace ?f0) = loginAttempts (trace f)"
    by (cases "openerOpen env (trace f) url")
       (simp_all add: openBrowser_resolved [OF Inr] loginAttempts_def isLoginCall_def)
  obtain rounds where r: "1 \<le> length rounds" "length rounds \<le> 3"
      "trace (snd ?R) = trace ?f0 @ concat (map (tokenRound [] noCredentials) rounds)"
    using browser_rounds_first [OF assms ob, of "[]" noCredentials]
    unfolding triggerMethod_def noCredentials_def by blast
  have "loginAttempts (trace (snd ?R)) = loginAttempts (trace f) + length rounds"
    by (simp add: r(3) loginAttempts_append rounds_loginAttempts l0)
  with r have "\<exists>rounds. 1 \<le> length rounds \<and> length rounds \<le> 3
                \<and> trace (snd ?R) = trace ?f0 @ concat (map (tokenRound [] noCredentials) rounds)
                \<and> loginAttempts (trace (snd ?R)) = loginAttempts (trace f) + length rounds"
    by blast
  moreover have "openedURLs (trace ?f0) = openedURLs (trace f) @ [url]"
    by (rule openBrowser_openedURLs [OF Inr])
  moreover have "openedURLs (trace (snd ?R)) = openedURLs (trace f) @ [url]"
    using openBrowser_openedURLs [OF Inr, of f]
    by (simp add: r(3) openedURLs_append rounds_openedURLs)
  ultimately show ?thesis
    using Inr by simp
qed

text \<open>
  On \<open>env0\<close> the provider \<open>p4\<close> has an absolute URL: the browser is sent there once,
  and the three rejected passes are three token prompts and three login calls.
\<close>

theorem browser_opened_first_attempt_only_witness:
  "ClientMethod p4 = methodBrowserToken
   \<and> resolveURL env0 (StartFlowURL (Config p4)) = Inr ''https://sso.example.com/start''
   \<and> openedURLs (trace (snd (triggerMethod env0 p4 flow0))) = [''https://sso.example.com/start'']
   \<and> drop 3 (trace (snd (triggerMethod env0 p4 flow0))) =
       concat (map (tokenRound [] noCredentials)
         [(''typed'', ([], Some (Err ''401 Unauthorized''))),
          (''typed'', ([], Some (Err ''401 Unauthorized''))),
          (''typed'', ([], Some (Err ''401 Unauthorized'')))])"
proof -
  have h1: "ClientMethod p4 = methodBrowserToken"
    by (simp add: p4_def)
  have h2: "resolveURL env0 (StartFlowURL (Config p4)) = Inr ''https://sso.example.com/start''"
    by (simp add: resolveURL_def HasPrefix_def p4_def)
  have t0: "openedURLs (trace flow0) = []"
    by (simp add: flow0_def openedURLs_def)
  have tr: "drop 3 (trace (snd (triggerMethod env0 p4 flow0))) =
       concat (map (tokenRound [] noCredentials)
         [(''typed'', ([], Some (Err ''401 Unauthorized''))),
          (''typed'', ([], Some (Err ''401 Unauthorized''))),
          (''typed'', ([], Some (Err ''401 Unauthorized'')))])"
    by (simp add: triggerMethod_def triggerLoop.simps acquire_def openBrowser_def resolveURL_def
                  HasPrefix_def env0_def flow0_def p4_def emit_def tokenRound_def
                  tokenPrompt_def noCredentials_def)
  show ?thesis
    using browser_opened_first_attempt_only [OF h1, of env0 flow0] h1 h2 t0 tr
    by simp
qed

text \<open>
  The statement as the specification has it fails. On \<open>envNoURL\<close> the first pass
  of the browser-token provider \<open>p2\<close> ends in \<open>openBrowser\<close>: the browser is not
  opened and the token prompt is not issued.
\<close>

theorem browser_opened_first_attempt_only_counterexample:
  "ClientMethod p2 = methodBrowserToken
   \<and> openedURLs (trace (snd (triggerMethod envNoURL p2 flow0))) = []
   \<and> trace (snd (triggerMethod envNoURL p2 flow0)) = []
   \<and> fst (triggerMethod envNoURL p2 flow0) = ([], Some (Err ''invalid URL escape''))"
  by (simp add: triggerMethod_def triggerLoop.simps acquire_def openBrowser_def resolveURL_def
                HasPrefix_def envNoURL_def env0_def flow0_def p2_def openedURLs_def)

text \<open>
  C10, as amended. In every browser-token flow the interactivity flag is true
  whenever a pass hands its credentials to the login call, whatever the flags hold.
  So, when the start-flow URL is absolute or is resolved by the HTTP client, a login
  endpoint that rejects every submission gets exactly three login calls, never one,
  and the failure of the third is returned. When the resolution fails the flow
  returns that error and submits nothing.
\<close>

theorem browser_token_retry:
  assumes "ClientMethod provider = methodBrowserToken"
      and "\<forall>h ep c. snd (clientLogin env h ep c) \<noteq> None"
  shows "(\<forall>a ep c g x g'. acquire env provider a ep c g = (Inr x, g') \<longrightarrow> interactive g')
       \<and> (case resolveURL env (StartFlowURL (Config provider)) of
             Inl e \<Rightarrow> triggerMethod env provider f = (([], Some e), f)
           | Inr url \<Rightarrow>
               loginAttempts (trace (snd (triggerMethod env provider f)))
                 = loginAttempts (trace f) + 3
               \<and> snd (fst (triggerMethod env provider f)) \<noteq> None
               \<and> lastLogin (trace (snd (triggerMethod env provider f)))
                   = Some (fst (triggerMethod env provider f))
               \<and> interactive (snd (triggerMethod env provider f)))"
proof (intro conjI allI impI)
  fix a ep c g x g'
  assume "acquire env provider a ep c g = (Inr x, g')"
  then show "interactive g'"
    by (rule browser_acquire_interactive [OF assms(1)])
next
  show "case resolveURL env (StartFlowURL (Config provider)) of
          Inl e \<Rightarrow> triggerMethod env provider f = (([], Some e), f)
        | Inr url \<Rightarrow>
            loginAttempts (trace (snd (triggerMethod env provider f)))
              = loginAttempts (trace f) + 3
            \<and> snd (fst (triggerMethod env provider f)) \<noteq> None
            \<and> lastLogin (trace (snd (triggerMethod env provider f)))
                = Some (fst (triggerMethod env provider f))
            \<and> interactive (snd (triggerMethod env provider f))"
  proof (cases "resolveURL env (StartFlowURL (Config provider))")
    case (Inl e)
    then show ?thesis
      using loop_step_fail [OF browser_acquire_abort [OF assms(1) Inl]]
      by (simp add: triggerMethod_def)
  next
    case (Inr url)
    have "rejectedAfter 3 f (triggerLoop env provider 1 [] noCredentials f)"
      using assms Inr by (intro retry_three) (simp_all add: prompts_def)
    then show ?thesis
      using Inr
      by (auto simp: rejectedAfter_def triggerMethod_def noCredentials_def split: prod.splits)
  qed
qed

text \<open>
  On \<open>env0\<close> user name, password and key are all given as flags, and the
  browser-token provider \<open>p2\<close> still gets three attempts.
\<close>

theorem browser_token_retry_witness:
  "ClientMethod p2 = methodBrowserToken
   \<and> snd (clientLogin env0 [] [] noCredentials) = Some (Err ''401 Unauthorized'')
   \<and> resolveURL env0 (StartFlowURL (Config p2)) = Inr ''https://dcos.example.com/login?oob=1''
   \<and> username (flags flowFlags) = ''alice''
   \<and> loginAttempts (trace (snd (triggerMethod env0 p2 flowFlags))) = 3
   \<and> interactive (snd (triggerMethod env0 p2 flowFlags))
   \<and> lastLogin (trace (snd (triggerMethod env0 p2 flowFlags)))
       = Some (fst (triggerMethod env0 p2 flowFlags))"
proof -
  have h1: "ClientMethod p2 = methodBrowserToken"
    by (simp add: p2_def)
  have h2: "\<forall>h ep c. snd (clientLogin env0 h ep c) \<noteq> None"
    by (simp add: env0_def)
  have h3: "resolveURL env0 (StartFlowURL (Config p2)) = Inr ''https://dcos.example.com/login?oob=1''"
    by (simp add: resolveURL_def HasPrefix_def env0_def p2_def)
  have t0: "loginAttempts (trace flowFlags) = 0" "username (flags flowFlags) = ''alice''"
      "snd (clientLogin env0 [] [] noCredentials) = Some (Err ''401 Unauthorized'')"
    by (simp_all add: flowFlags_def loginAttempts_def env0_def)
  show ?thesis
    using browser_token_retry [OF h1 h2, of flowFlags] h1 h3 t0
    by simp
qed

text \<open>
  The statement as the specification has it fails. On \<open>envNoURL\<close> the endpoint
  rejects every submission, but the browser-token provider \<open>p2\<close> gets no login call
  at all: the flow returns the error of the URL resolution.
\<close>

theorem browser_token_retry_counterexample:
  "ClientMethod p2 = methodBrowserToken
   \<and> snd (clientLogin envNoURL [] [] noCredentials) = Some (Err ''401 Unauthorized'')
   \<and> loginAttempts (trace (snd (triggerMethod envNoURL p2 flowFlags))) = 0
   \<and> fst (triggerMethod envNoURL p2 flowFlags) = ([], Some (Err ''invalid URL escape''))"
  by (simp add: triggerMethod_def triggerLoop.simps acquire_def openBrowser_def resolveURL_def
                HasPrefix_def envNoURL_def env0_def flowFlags_def p2_def loginAttempts_def)

end
